theory Spec2Isabelle
  imports Main
begin

section \<open>The WebGL shader program pipeline (core/frontend/src/render/webgl/ShaderProgram.ts)\<close>

subsection \<open>Collaborators: parameters, the device context, assertions\<close>

text \<open>
  Device objects are opaque to the code, which only compares them with \<open>null\<close> and
  \<open>undefined\<close> and hands them back to the device; they are natural numbers here.
  A TypeScript \<open>T | undefined\<close> is a \<open>T option\<close>.
\<close>

type_synonym WebGLProgram = nat
type_synonym WebGLShader = nat
type_synonym UniformHandle = nat
type_synonym AttributeHandle = nat

text \<open>References to \<open>ShaderProgram\<close> objects: \<open>===\<close> on objects is equality of references.\<close>

type_synonym ProgramRef = nat

datatype ShaderType = Vertex | Fragment

text \<open>
  \<open>ShaderProgramParams\<close> and \<open>DrawParams\<close> are declared in DrawCommand.ts, which is not
  among the sources. The code reads \<open>params.target\<close>, \<open>params.context\<close> and, in
  \<open>drawInterrupt\<close>, the program that
  \<open>params.target.techniques.getTechnique(params.geometry.getTechniqueId(params.target)).getShader(TechniqueFlags.defaults)\<close>
  returns; that program is the field \<open>dp_techniqueShader\<close>. The context is the one device
  of the model and is passed beside the parameters.
\<close>

record ShaderProgramParams =
  sp_target :: nat
  sp_pass :: nat

record DrawParams =
  dp_target :: nat
  dp_pass :: nat
  dp_techniqueShader :: ProgramRef

text \<open>
  Everything the code asks of the device, in the order it asks. The three \<open>Bind...\<close> entries
  stand for an invocation of a descriptor's binding closure \<open>_bind(handle, params)\<close>, which
  is supplied by the caller and sets the uniform or attribute on the device; the entry
  records the descriptor's name and the arguments the closure receives.
\<close>

datatype gl_call =
    CreateProgram
  | DeleteProgram WebGLProgram
  | CreateShader ShaderType
  | ShaderSource WebGLShader string
  | CompileShader WebGLShader
  | GetShaderParameter WebGLShader
  | AttachShader WebGLProgram WebGLShader
  | LinkProgram WebGLProgram
  | GetProgramParameter WebGLProgram
  | UseProgram "WebGLProgram option"
  | GetUniformLocation WebGLProgram string
  | GetAttribLocation WebGLProgram string
  | BindProgramUniform string UniformHandle ShaderProgramParams
  | BindGraphicUniform string UniformHandle DrawParams
  | BindAttribute string AttributeHandle DrawParams

text \<open>
  The device: the calls made so far (oldest first), the program it currently has active, and
  how it answers. An answer may depend on every call made so far, the one being answered
  included (it is the last of the list): \<open>objectResult\<close> answers the calls that return an
  object or \<open>null\<close>, \<open>statusResult\<close> the status queries.
\<close>

record WebGLRenderingContext =
  calls :: "gl_call list"
  currentProgram :: "WebGLProgram option"
  objectResult :: "gl_call list \<Rightarrow> nat option"
  statusResult :: "gl_call list \<Rightarrow> bool"

definition gl_call_unit :: "gl_call \<Rightarrow> WebGLRenderingContext \<Rightarrow> WebGLRenderingContext" where
  "gl_call_unit c gl = gl\<lparr>calls := calls gl @ [c]\<rparr>"

definition gl_call_object :: "gl_call \<Rightarrow> WebGLRenderingContext \<Rightarrow> nat option \<times> WebGLRenderingContext" where
  "gl_call_object c gl = (objectResult gl (calls gl @ [c]), gl\<lparr>calls := calls gl @ [c]\<rparr>)"

definition gl_call_status :: "gl_call \<Rightarrow> WebGLRenderingContext \<Rightarrow> bool \<times> WebGLRenderingContext" where
  "gl_call_status c gl = (statusResult gl (calls gl @ [c]), gl\<lparr>calls := calls gl @ [c]\<rparr>)"

definition gl_createProgram :: "WebGLRenderingContext \<Rightarrow> WebGLProgram option \<times> WebGLRenderingContext" where
  "gl_createProgram gl = gl_call_object CreateProgram gl"

definition gl_deleteProgram :: "WebGLProgram \<Rightarrow> WebGLRenderingContext \<Rightarrow> WebGLRenderingContext" where
  "gl_deleteProgram g gl = gl_call_unit (DeleteProgram g) gl"

definition gl_createShader :: "ShaderType \<Rightarrow> WebGLRenderingContext \<Rightarrow> WebGLShader option \<times> WebGLRenderingContext" where
  "gl_createShader ty gl = gl_call_object (CreateShader ty) gl"

definition gl_shaderSource :: "WebGLShader \<Rightarrow> string \<Rightarrow> WebGLRenderingContext \<Rightarrow> WebGLRenderingContext" where
  "gl_shaderSource shader src gl = gl_call_unit (ShaderSource shader src) gl"

definition gl_compileShader :: "WebGLShader \<Rightarrow> WebGLRenderingContext \<Rightarrow> WebGLRenderingContext" where
  "gl_compileShader shader gl = gl_call_unit (CompileShader shader) gl"

definition gl_getShaderParameter :: "WebGLShader \<Rightarrow> WebGLRenderingContext \<Rightarrow> bool \<times> WebGLRenderingContext" where
  "gl_getShaderParameter shader gl = gl_call_status (GetShaderParameter shader) gl"

definition gl_attachShader :: "WebGLProgram \<Rightarrow> WebGLShader \<Rightarrow> WebGLRenderingContext \<Rightarrow> WebGLRenderingContext" where
  "gl_attachShader g shader gl = gl_call_unit (AttachShader g shader) gl"

definition gl_linkProgram :: "WebGLProgram \<Rightarrow> WebGLRenderingContext \<Rightarrow> WebGLRenderingContext" where
  "gl_linkProgram g gl = gl_call_unit (LinkProgram g) gl"

definition gl_getProgramParameter :: "WebGLProgram \<Rightarrow> WebGLRenderingContext \<Rightarrow> bool \<times> WebGLRenderingContext" where
  "gl_getProgramParameter g gl = gl_call_status (GetProgramParameter g) gl"

definition gl_useProgram :: "WebGLProgram option \<Rightarrow> WebGLRenderingContext \<Rightarrow> WebGLRenderingContext" where
  "gl_useProgram g gl = (gl_call_unit (UseProgram g) gl)\<lparr>currentProgram := g\<rparr>"

text \<open>The calls that activate or deactivate a program, and the invocations of binding closures.\<close>

fun is_useProgram :: "gl_call \<Rightarrow> bool" where
  "is_useProgram (UseProgram g) = True"
| "is_useProgram c = False"

fun is_bind :: "gl_call \<Rightarrow> bool" where
  "is_bind (BindProgramUniform n h ps) = True"
| "is_bind (BindGraphicUniform n h ps) = True"
| "is_bind (BindAttribute n h ps) = True"
| "is_bind c = False"

text \<open>The calls that create, compile, attach or link shader objects.\<close>

fun is_compile_or_link :: "gl_call \<Rightarrow> bool" where
  "is_compile_or_link (CreateShader ty) = True"
| "is_compile_or_link (ShaderSource s src) = True"
| "is_compile_or_link (CompileShader s) = True"
| "is_compile_or_link (GetShaderParameter s) = True"
| "is_compile_or_link (AttachShader g s) = True"
| "is_compile_or_link (LinkProgram g) = True"
| "is_compile_or_link (GetProgramParameter g) = True"
| "is_compile_or_link c = False"

text \<open>The one error of the code: the \<open>Error\<close> thrown by a failed assertion.\<close>

datatype error = AssertionFailed

text \<open>
  Modelled from the spec: \<open>assert\<close> of @bentley/bentleyjs-core is not among the sources. The
  spec calls a violated assertion "asserted/fatal in debug builds; production builds may
  choose to no-op defensively", so whether assertions are enabled is the parameter \<open>ae\<close> of
  every operation: an enabled assertion whose condition is false throws, and the mutations
  made before it stay.
\<close>

definition assert_throws :: "bool \<Rightarrow> bool \<Rightarrow> bool" where
  "assert_throws ae condition = (ae \<and> \<not> condition)"

text \<open>
  A method declared \<open>void\<close> returns \<open>undefined\<close>; the code tests two such results with
  \<open>!\<close> and \<open>if\<close>, which read their truthiness.
\<close>

datatype js_value = Undefined | Boolean bool

fun truthy :: "js_value \<Rightarrow> bool" where
  "truthy Undefined = False"
| "truthy (Boolean b) = b"

subsection \<open>Binding descriptors\<close>

text \<open>
  \<open>Uniform\<close> with its subclasses \<open>ProgramUniform\<close> and \<open>GraphicUniform\<close>, and
  \<open>Attribute\<close>. The subclasses add only the binding closure, which the model records by the
  descriptor's name when it is invoked.
\<close>

record Uniform =
  u_name :: string
  u_handle :: "UniformHandle option"

record Attribute =
  a_name :: string
  a_handle :: "AttributeHandle option"

type_synonym ProgramUniform = Uniform
type_synonym GraphicUniform = Uniform

definition Uniform_isValid :: "Uniform \<Rightarrow> bool" where
  "Uniform_isValid u = (u_handle u \<noteq> None)"

definition Attribute_isValid :: "Attribute \<Rightarrow> bool" where
  "Attribute_isValid a = (a_handle a \<noteq> None)"

definition ProgramUniform_new :: "string \<Rightarrow> ProgramUniform" where
  "ProgramUniform_new n = \<lparr>u_name = n, u_handle = None\<rparr>"

definition GraphicUniform_new :: "string \<Rightarrow> GraphicUniform" where
  "GraphicUniform_new n = \<lparr>u_name = n, u_handle = None\<rparr>"

definition Attribute_new :: "string \<Rightarrow> Attribute" where
  "Attribute_new n = \<lparr>a_name = n, a_handle = None\<rparr>"

text \<open>\<open>ProgramUniform.bind\<close> is declared \<open>void\<close>: whatever it does, it returns \<open>undefined\<close>.\<close>

definition ProgramUniform_bind ::
  "ProgramUniform \<Rightarrow> ShaderProgramParams \<Rightarrow> WebGLRenderingContext \<Rightarrow> js_value \<times> WebGLRenderingContext" where
  "ProgramUniform_bind u params gl =
     (case u_handle u of
        None \<Rightarrow> (Undefined, gl)
      | Some h \<Rightarrow> (Undefined, gl_call_unit (BindProgramUniform (u_name u) h params) gl))"

definition GraphicUniform_bind ::
  "GraphicUniform \<Rightarrow> DrawParams \<Rightarrow> WebGLRenderingContext \<Rightarrow> WebGLRenderingContext" where
  "GraphicUniform_bind u params gl =
     (case u_handle u of
        None \<Rightarrow> gl
      | Some h \<Rightarrow> gl_call_unit (BindGraphicUniform (u_name u) h params) gl)"

definition Attribute_bind ::
  "Attribute \<Rightarrow> DrawParams \<Rightarrow> WebGLRenderingContext \<Rightarrow> WebGLRenderingContext" where
  "Attribute_bind a params gl =
     (case a_handle a of
        None \<Rightarrow> gl
      | Some h \<Rightarrow> gl_call_unit (BindAttribute (a_name a) h params) gl)"

subsection \<open>ShaderProgram\<close>

datatype CompileStatus = Success | Failure | Uncompiled

record ShaderProgram =
  description :: string
  vertSource :: string
  fragSource :: string
  glProgram :: "WebGLProgram option"
  inUse :: bool
  status :: CompileStatus
  programUniforms :: "ProgramUniform list"
  graphicUniforms :: "GraphicUniform list"
  attributes :: "Attribute list"

text \<open>
  The constructor. Its one assertion, \<open>undefined !== this._description\<close>, is about a
  parameter of type \<open>string\<close> and holds for every well-typed call.
\<close>

definition ShaderProgram_new ::
  "string \<Rightarrow> string \<Rightarrow> string \<Rightarrow> WebGLRenderingContext \<Rightarrow> ShaderProgram \<times> WebGLRenderingContext" where
  "ShaderProgram_new vert frag descr gl =
     (case gl_createProgram gl of
        (g, gl1) \<Rightarrow>
          (\<lparr>description = descr, vertSource = vert, fragSource = frag, glProgram = g,
            inUse = False, status = Uncompiled, programUniforms = [], graphicUniforms = [],
            attributes = []\<rparr>, gl1))"

definition dispose ::
  "bool \<Rightarrow> ShaderProgram \<Rightarrow> WebGLRenderingContext \<Rightarrow> (error + unit) \<times> ShaderProgram \<times> WebGLRenderingContext" where
  "dispose ae p gl =
     (case glProgram p of
        None \<Rightarrow> (Inr (), p, gl)
      | Some g \<Rightarrow>
          if assert_throws ae (\<not> inUse p) then (Inl AssertionFailed, p, gl)
          else (Inr (), p\<lparr>glProgram := None, status := Uncompiled\<rparr>, gl_deleteProgram g gl))"

definition isValid :: "ShaderProgram \<Rightarrow> bool" where
  "isValid p = (glProgram p \<noteq> None)"

definition isUncompiled :: "ShaderProgram \<Rightarrow> bool" where
  "isUncompiled p = (status p = Uncompiled)"

definition compileShader ::
  "bool \<Rightarrow> ShaderProgram \<Rightarrow> ShaderType \<Rightarrow> WebGLRenderingContext \<Rightarrow> (error + WebGLShader option) \<times> WebGLRenderingContext" where
  "compileShader ae p ty gl =
     (case gl_createShader ty gl of
        (None, gl1) \<Rightarrow> (Inr None, gl1)
      | (Some shader, gl1) \<Rightarrow>
          (let src = (if ty = Vertex then vertSource p else fragSource p);
               gl2 = gl_shaderSource shader src gl1;
               gl3 = gl_compileShader shader gl2
           in case gl_getShaderParameter shader gl3 of
                (succeeded, gl4) \<Rightarrow>
                  if assert_throws ae succeeded then (Inl AssertionFailed, gl4)
                  else (Inr (if succeeded then Some shader else None), gl4)))"

definition linkProgram ::
  "bool \<Rightarrow> ShaderProgram \<Rightarrow> WebGLShader \<Rightarrow> WebGLShader \<Rightarrow> WebGLRenderingContext \<Rightarrow> (error + bool) \<times> WebGLRenderingContext" where
  "linkProgram ae p vert frag gl =
     (if assert_throws ae (glProgram p \<noteq> None) then (Inl AssertionFailed, gl)
      else case glProgram p of
             None \<Rightarrow> (Inr False, gl)
           | Some g \<Rightarrow>
               (let gl1 = gl_attachShader g vert gl;
                    gl2 = gl_attachShader g frag gl1;
                    gl3 = gl_linkProgram g gl2
                in case gl_getProgramParameter g gl3 of (linked, gl4) \<Rightarrow> (Inr linked, gl4)))"

definition compile ::
  "bool \<Rightarrow> ShaderProgram \<Rightarrow> WebGLRenderingContext \<Rightarrow> (error + bool) \<times> ShaderProgram \<times> WebGLRenderingContext" where
  "compile ae p gl =
     (case status p of
        Failure \<Rightarrow> (Inr False, p, gl)
      | Success \<Rightarrow> (Inr True, p, gl)
      | Uncompiled \<Rightarrow>
          if \<not> isValid p then (Inr False, p\<lparr>status := Failure\<rparr>, gl)
          else
            (case compileShader ae p Vertex gl of
               (Inl e, gl1) \<Rightarrow> (Inl e, p, gl1)
             | (Inr vert, gl1) \<Rightarrow>
                 (case compileShader ae p Fragment gl1 of
                    (Inl e, gl2) \<Rightarrow> (Inl e, p, gl2)
                  | (Inr frag, gl2) \<Rightarrow>
                      (case (vert, frag) of
                         (Some v, Some f) \<Rightarrow>
                           (case linkProgram ae p v f gl2 of
                              (Inl e, gl3) \<Rightarrow> (Inl e, p, gl3)
                            | (Inr True, gl3) \<Rightarrow> (Inr True, p\<lparr>status := Success\<rparr>, gl3)
                            | (Inr False, gl3) \<Rightarrow> (Inr False, p\<lparr>status := Failure\<rparr>, gl3))
                       | _ \<Rightarrow> (Inr False, p\<lparr>status := Failure\<rparr>, gl2)))))"

text \<open>
  \<open>use\<close>'s loop over the program-scoped uniforms:
  \<^verbatim>\<open>for (const uniform of this._programUniforms) { if (!uniform.bind(params)) { return false; } }\<close>
  followed by \<open>return true\<close>. The boolean is what \<open>use\<close> returns.
\<close>

fun use_bindProgramUniforms ::
  "ProgramUniform list \<Rightarrow> ShaderProgramParams \<Rightarrow> WebGLRenderingContext \<Rightarrow> bool \<times> WebGLRenderingContext" where
  "use_bindProgramUniforms [] params gl = (True, gl)"
| "use_bindProgramUniforms (uniform # rest) params gl =
     (case ProgramUniform_bind uniform params gl of
        (r, gl1) \<Rightarrow>
          if \<not> truthy r then (False, gl1)
          else use_bindProgramUniforms rest params gl1)"

definition use ::
  "bool \<Rightarrow> ShaderProgram \<Rightarrow> ShaderProgramParams \<Rightarrow> WebGLRenderingContext \<Rightarrow> (error + bool) \<times> ShaderProgram \<times> WebGLRenderingContext" where
  "use ae p params gl =
     (case compile ae p gl of
        (Inl e, p1, gl1) \<Rightarrow> (Inl e, p1, gl1)
      | (Inr False, p1, gl1) \<Rightarrow> (Inr False, p1, gl1)
      | (Inr True, p1, gl1) \<Rightarrow>
          if assert_throws ae (glProgram p1 \<noteq> None) then (Inl AssertionFailed, p1, gl1)
          else
            (case glProgram p1 of
               None \<Rightarrow> (Inr False, p1, gl1)
             | Some g \<Rightarrow>
                 if assert_throws ae (\<not> inUse p1) then (Inl AssertionFailed, p1, gl1)
                 else
                   (let p2 = p1\<lparr>inUse := True\<rparr>;
                        gl2 = gl_useProgram (Some g) gl1
                    in case use_bindProgramUniforms (programUniforms p2) params gl2 of
                         (r, gl3) \<Rightarrow> (Inr r, p2, gl3))))"

definition endUse ::
  "bool \<Rightarrow> ShaderProgram \<Rightarrow> WebGLRenderingContext \<Rightarrow> (error + unit) \<times> ShaderProgram \<times> WebGLRenderingContext" where
  "endUse ae p gl =
     (if assert_throws ae (inUse p) then (Inl AssertionFailed, p, gl)
      else (Inr (), p\<lparr>inUse := False\<rparr>, gl_useProgram None gl))"

text \<open>\<open>draw\<close>: two loops without an exit, first the graphic-scoped uniforms, then the attributes.\<close>

definition draw ::
  "bool \<Rightarrow> ShaderProgram \<Rightarrow> DrawParams \<Rightarrow> WebGLRenderingContext \<Rightarrow> (error + unit) \<times> ShaderProgram \<times> WebGLRenderingContext" where
  "draw ae p params gl =
     (if assert_throws ae (inUse p) then (Inl AssertionFailed, p, gl)
      else
        (let gl1 = fold (\<lambda>uniform. GraphicUniform_bind uniform params) (graphicUniforms p) gl;
             gl2 = fold (\<lambda>attribute. Attribute_bind attribute params) (attributes p) gl1
         in (Inr (), p, gl2)))"

definition addProgramUniform :: "bool \<Rightarrow> ShaderProgram \<Rightarrow> string \<Rightarrow> (error + unit) \<times> ShaderProgram" where
  "addProgramUniform ae p n =
     (if assert_throws ae (isUncompiled p) then (Inl AssertionFailed, p)
      else (Inr (), p\<lparr>programUniforms := programUniforms p @ [ProgramUniform_new n]\<rparr>))"

definition addGraphicUniform :: "bool \<Rightarrow> ShaderProgram \<Rightarrow> string \<Rightarrow> (error + unit) \<times> ShaderProgram" where
  "addGraphicUniform ae p n =
     (if assert_throws ae (isUncompiled p) then (Inl AssertionFailed, p)
      else (Inr (), p\<lparr>graphicUniforms := graphicUniforms p @ [GraphicUniform_new n]\<rparr>))"

definition addAttribute :: "bool \<Rightarrow> ShaderProgram \<Rightarrow> string \<Rightarrow> (error + unit) \<times> ShaderProgram" where
  "addAttribute ae p n =
     (if assert_throws ae (isUncompiled p) then (Inl AssertionFailed, p)
      else (Inr (), p\<lparr>attributes := attributes p @ [Attribute_new n]\<rparr>))"

subsection \<open>Resolving a descriptor's handle\<close>

text \<open>
  Modelled from the spec: \<open>UniformHandle.create\<close> and \<open>AttributeHandle.create\<close> are in
  Handle.ts, which is not among the sources. The spec has them "look up the named location
  inside the compiled program", the handle staying absent when the location is not found:
  one device call, answered with a location or nothing.
\<close>

definition UniformHandle_create ::
  "WebGLRenderingContext \<Rightarrow> WebGLProgram \<Rightarrow> string \<Rightarrow> UniformHandle option \<times> WebGLRenderingContext" where
  "UniformHandle_create gl g n = gl_call_object (GetUniformLocation g n) gl"

text \<open>
  Modelled from the spec: \<open>AttributeHandle.create\<close> (Handle.ts, not among the sources), as
  \<open>UniformHandle.create\<close> above: one device call, answered with a location or nothing.
\<close>

definition AttributeHandle_create ::
  "WebGLRenderingContext \<Rightarrow> WebGLProgram \<Rightarrow> string \<Rightarrow> AttributeHandle option \<times> WebGLRenderingContext" where
  "AttributeHandle_create gl g n = gl_call_object (GetAttribLocation g n) gl"

definition Uniform_compile ::
  "bool \<Rightarrow> Uniform \<Rightarrow> WebGLRenderingContext \<Rightarrow> ShaderProgram \<Rightarrow> (error + bool) \<times> Uniform \<times> WebGLRenderingContext" where
  "Uniform_compile ae u gl prog =
     (if assert_throws ae (\<not> Uniform_isValid u) then (Inl AssertionFailed, u, gl)
      else
        (case glProgram prog of
           None \<Rightarrow> (Inr (Uniform_isValid u), u, gl)
         | Some g \<Rightarrow>
             (case UniformHandle_create gl g (u_name u) of
                (h, gl1) \<Rightarrow> (Inr (Uniform_isValid (u\<lparr>u_handle := h\<rparr>)), u\<lparr>u_handle := h\<rparr>, gl1))))"

definition Attribute_compile ::
  "bool \<Rightarrow> Attribute \<Rightarrow> WebGLRenderingContext \<Rightarrow> ShaderProgram \<Rightarrow> (error + bool) \<times> Attribute \<times> WebGLRenderingContext" where
  "Attribute_compile ae a gl prog =
     (if assert_throws ae (\<not> Attribute_isValid a) then (Inl AssertionFailed, a, gl)
      else
        (case glProgram prog of
           None \<Rightarrow> (Inr (Attribute_isValid a), a, gl)
         | Some g \<Rightarrow>
             (case AttributeHandle_create gl g (a_name a) of
                (h, gl1) \<Rightarrow> (Inr (Attribute_isValid (a\<lparr>a_handle := h\<rparr>)), a\<lparr>a_handle := h\<rparr>, gl1))))"

subsection \<open>ShaderProgramExecutor\<close>

text \<open>
  The executor holds a reference to a program that other code holds too, so the programs
  live in a store, addressed by reference, beside the device. \<open>_params.context\<close> is the
  device of the store.
\<close>

record World =
  heap :: "ProgramRef \<Rightarrow> ShaderProgram"
  device :: WebGLRenderingContext

record ShaderProgramExecutor =
  x_program :: "ProgramRef option"
  x_params :: ShaderProgramParams

text \<open>A method of the program at reference \<open>r\<close>, run on the store.\<close>

definition on_program ::
  "(ShaderProgram \<Rightarrow> WebGLRenderingContext \<Rightarrow> 'a \<times> ShaderProgram \<times> WebGLRenderingContext) \<Rightarrow> ProgramRef \<Rightarrow> World \<Rightarrow> 'a \<times> World" where
  "on_program m r w =
     (case m (heap w r) (device w) of
        (res, p1, gl1) \<Rightarrow> (res, w\<lparr>heap := (heap w)(r := p1), device := gl1\<rparr>))"

definition changeProgram ::
  "bool \<Rightarrow> ShaderProgramExecutor \<Rightarrow> ProgramRef option \<Rightarrow> World \<Rightarrow> (error + bool) \<times> ShaderProgramExecutor \<times> World" where
  "changeProgram ae x program w =
     (if x_program x = program then (Inr True, x, w)
      else
        (case (case x_program x of
                 None \<Rightarrow> (Inr (), w)
               | Some old \<Rightarrow> on_program (endUse ae) old w) of
           (Inl e, w1) \<Rightarrow> (Inl e, x, w1)
         | (Inr u, w1) \<Rightarrow>
             (let x1 = x\<lparr>x_program := program\<rparr>
              in case program of
                   None \<Rightarrow> (Inr True, x1, w1)
                 | Some r \<Rightarrow>
                     (case on_program (\<lambda>p. use ae p (x_params x1)) r w1 of
                        (Inl e, w2) \<Rightarrow> (Inl e, x1, w2)
                      | (Inr False, w2) \<Rightarrow> (Inr False, x1\<lparr>x_program := None\<rparr>, w2)
                      | (Inr True, w2) \<Rightarrow> (Inr True, x1, w2)))))"

text \<open>
  The constructor: \<open>_program\<close> is not yet assigned when \<open>changeProgram(program)\<close> runs.
  \<open>new ShaderProgramParams(target, pass)\<close> keeps the two arguments.
\<close>

definition ShaderProgramExecutor_new ::
  "bool \<Rightarrow> nat \<Rightarrow> nat \<Rightarrow> ProgramRef option \<Rightarrow> World \<Rightarrow> (error + unit) \<times> ShaderProgramExecutor \<times> World" where
  "ShaderProgramExecutor_new ae target pass program w =
     (case changeProgram ae \<lparr>x_program = None, x_params = \<lparr>sp_target = target, sp_pass = pass\<rparr>\<rparr> program w of
        (Inl e, x1, w1) \<Rightarrow> (Inl e, x1, w1)
      | (Inr b, x1, w1) \<Rightarrow> (Inr (), x1, w1))"

definition executor_dispose ::
  "bool \<Rightarrow> ShaderProgramExecutor \<Rightarrow> World \<Rightarrow> (error + unit) \<times> ShaderProgramExecutor \<times> World" where
  "executor_dispose ae x w =
     (case changeProgram ae x None w of
        (Inl e, x1, w1) \<Rightarrow> (Inl e, x1, w1)
      | (Inr b, x1, w1) \<Rightarrow> (Inr (), x1, w1))"

text \<open>
  \<open>setProgram\<close> has no \<open>return\<close>: it runs \<open>changeProgram\<close>, drops its boolean and returns
  \<open>undefined\<close>.
\<close>

definition setProgram ::
  "bool \<Rightarrow> ShaderProgramExecutor \<Rightarrow> ProgramRef \<Rightarrow> World \<Rightarrow> (error + js_value) \<times> ShaderProgramExecutor \<times> World" where
  "setProgram ae x program w =
     (case changeProgram ae x (Some program) w of
        (Inl e, x1, w1) \<Rightarrow> (Inl e, x1, w1)
      | (Inr b, x1, w1) \<Rightarrow> (Inr Undefined, x1, w1))"

definition executor_isValid :: "ShaderProgramExecutor \<Rightarrow> bool" where
  "executor_isValid x = (x_program x \<noteq> None)"

definition executor_draw ::
  "bool \<Rightarrow> ShaderProgramExecutor \<Rightarrow> DrawParams \<Rightarrow> World \<Rightarrow> (error + unit) \<times> ShaderProgramExecutor \<times> World" where
  "executor_draw ae x params w =
     (if assert_throws ae (executor_isValid x) then (Inl AssertionFailed, x, w)
      else
        (case x_program x of
           None \<Rightarrow> (Inr (), x, w)
         | Some r \<Rightarrow>
             (case on_program (\<lambda>p. draw ae p params) r w of (res, w1) \<Rightarrow> (res, x, w1))))"

definition drawInterrupt ::
  "bool \<Rightarrow> ShaderProgramExecutor \<Rightarrow> DrawParams \<Rightarrow> World \<Rightarrow> (error + unit) \<times> ShaderProgramExecutor \<times> World" where
  "drawInterrupt ae x params w =
     (if assert_throws ae (dp_target params = sp_target (x_params x)) then (Inl AssertionFailed, x, w)
      else
        (let program = dp_techniqueShader params
         in case setProgram ae x program w of
              (Inl e, x1, w1) \<Rightarrow> (Inl e, x1, w1)
            | (Inr r, x1, w1) \<Rightarrow>
                if truthy r then executor_draw ae x1 params w1
                else (Inr (), x1, w1)))"

text \<open>
  The calls \<open>drawInterrupt\<close> makes on its own executor, in order: \<open>this.setProgram(program)\<close>
  and, inside the \<open>if\<close>, \<open>this.draw(params)\<close>. A failed assertion or a throw inside
  \<open>setProgram\<close> ends the list.
\<close>

datatype executor_call = SetProgramCall ProgramRef | DrawCall DrawParams

definition drawInterrupt_calls ::
  "bool \<Rightarrow> ShaderProgramExecutor \<Rightarrow> DrawParams \<Rightarrow> World \<Rightarrow> executor_call list" where
  "drawInterrupt_calls ae x params w =
     (if assert_throws ae (dp_target params = sp_target (x_params x)) then []
      else
        (let program = dp_techniqueShader params
         in case setProgram ae x program w of
              (Inl e, x1, w1) \<Rightarrow> [SetProgramCall program]
            | (Inr r, x1, w1) \<Rightarrow>
                if truthy r then [SetProgramCall program, DrawCall params]
                else [SetProgramCall program]))"

section \<open>What the properties are stated with\<close>

text \<open>\<open>compile\<close> called \<open>n\<close> times in a row on one program: the results in order, and the final state.\<close>

fun compile_times ::
  "nat \<Rightarrow> bool \<Rightarrow> ShaderProgram \<Rightarrow> WebGLRenderingContext \<Rightarrow> (error + bool) list \<times> ShaderProgram \<times> WebGLRenderingContext" where
  "compile_times 0 ae p gl = ([], p, gl)"
| "compile_times (Suc n) ae p gl =
     (case compile ae p gl of
        (r, p1, gl1) \<Rightarrow>
          (case compile_times n ae p1 gl1 of (rs, p2, gl2) \<Rightarrow> (r # rs, p2, gl2)))"

text \<open>The device \<open>gl1\<close> is \<open>gl\<close> after some further calls, all of them shader compile or link calls.\<close>

definition only_compile_calls :: "WebGLRenderingContext \<Rightarrow> WebGLRenderingContext \<Rightarrow> bool" where
  "only_compile_calls gl gl1 =
     (\<exists>cs. gl1 = gl\<lparr>calls := calls gl @ cs\<rparr> \<and> list_all is_compile_or_link cs)"

text \<open>
  The closure invocations of a list of descriptors, in registration order; a descriptor
  whose handle is not resolved contributes none.
\<close>

definition graphicUniformBinds :: "GraphicUniform list \<Rightarrow> DrawParams \<Rightarrow> gl_call list" where
  "graphicUniformBinds us params =
     concat (map (\<lambda>u. case u_handle u of
                         None \<Rightarrow> []
                       | Some h \<Rightarrow> [BindGraphicUniform (u_name u) h params]) us)"

definition attributeBinds :: "Attribute list \<Rightarrow> DrawParams \<Rightarrow> gl_call list" where
  "attributeBinds as params =
     concat (map (\<lambda>a. case a_handle a of
                         None \<Rightarrow> []
                       | Some h \<Rightarrow> [BindAttribute (a_name a) h params]) as)"

text \<open>
  The programs that exist: what the constructor returns, and what any public method leaves
  behind, on any device, whether the call returned or threw.
\<close>

inductive reachable :: "ShaderProgram \<Rightarrow> bool" where
  new: "ShaderProgram_new vert frag descr gl = (p, gl1) \<Longrightarrow> reachable p"
| compile: "reachable p \<Longrightarrow> compile ae p gl = (r, p1, gl1) \<Longrightarrow> reachable p1"
| use: "reachable p \<Longrightarrow> use ae p params gl = (r, p1, gl1) \<Longrightarrow> reachable p1"
| endUse: "reachable p \<Longrightarrow> endUse ae p gl = (ru, p1, gl1) \<Longrightarrow> reachable p1"
| draw: "reachable p \<Longrightarrow> draw ae p dparams gl = (ru, p1, gl1) \<Longrightarrow> reachable p1"
| dispose: "reachable p \<Longrightarrow> dispose ae p gl = (ru, p1, gl1) \<Longrightarrow> reachable p1"
| addProgramUniform: "reachable p \<Longrightarrow> addProgramUniform ae p n = (ru, p1) \<Longrightarrow> reachable p1"
| addGraphicUniform: "reachable p \<Longrightarrow> addGraphicUniform ae p n = (ru, p1) \<Longrightarrow> reachable p1"
| addAttribute: "reachable p \<Longrightarrow> addAttribute ae p n = (ru, p1) \<Longrightarrow> reachable p1"

text \<open>A program with status \<open>Success\<close> has its device program object.\<close>

definition consistent :: "ShaderProgram \<Rightarrow> bool" where
  "consistent p = (status p = Success \<longrightarrow> glProgram p \<noteq> None)"

text \<open>No descriptor of the program has a handle.\<close>

definition unresolved :: "ShaderProgram \<Rightarrow> bool" where
  "unresolved p =
     (list_all (\<lambda>u. u_handle u = None) (programUniforms p)
      \<and> list_all (\<lambda>u. u_handle u = None) (graphicUniforms p)
      \<and> list_all (\<lambda>a. a_handle a = None) (attributes p))"

text \<open>
  The executor's reference mirrors the store and the device: the program it holds is the
  one program in use, and that program's device object is the device's active program; when
  it holds none, no program is in use and the device has none active.
\<close>

definition mirrors :: "ShaderProgramExecutor \<Rightarrow> World \<Rightarrow> bool" where
  "mirrors x w =
     ((\<forall>r. inUse (heap w r) = (x_program x = Some r))
      \<and> currentProgram (device w) =
          (case x_program x of None \<Rightarrow> None | Some r \<Rightarrow> glProgram (heap w r)))"

definition no_program_uniforms :: "World \<Rightarrow> bool" where
  "no_program_uniforms w = (\<forall>r. programUniforms (heap w r) = [])"

section \<open>Example devices, programs and stores\<close>

text \<open>
  A device on which every creation returns a new object (numbered by the position of the
  call) and every compile and link succeeds; one that rejects the shader source \<open>bad\<close>;
  one that creates nothing.
\<close>

definition workingDevice :: WebGLRenderingContext where
  "workingDevice =
     \<lparr>calls = [], currentProgram = None,
      objectResult = (\<lambda>h. Some (length h)), statusResult = (\<lambda>h. True)\<rparr>"

definition rejectingDevice :: WebGLRenderingContext where
  "rejectingDevice =
     \<lparr>calls = [], currentProgram = None,
      objectResult = (\<lambda>h. Some (length h)),
      statusResult = (\<lambda>h. case last h of
                              GetShaderParameter s \<Rightarrow> ShaderSource s ''bad'' \<notin> set h
                            | _ \<Rightarrow> True)\<rparr>"

definition lostDevice :: WebGLRenderingContext where
  "lostDevice =
     \<lparr>calls = [], currentProgram = None,
      objectResult = (\<lambda>h. None), statusResult = (\<lambda>h. False)\<rparr>"

text \<open>\<open>workingDevice\<close> after one program has been constructed on it.\<close>

definition constructedDevice :: WebGLRenderingContext where
  "constructedDevice = workingDevice\<lparr>calls := [CreateProgram]\<rparr>"

definition exampleParams :: ShaderProgramParams where
  "exampleParams = \<lparr>sp_target = 0, sp_pass = 0\<rparr>"

definition exampleDrawParams :: DrawParams where
  "exampleDrawParams = \<lparr>dp_target = 0, dp_pass = 0, dp_techniqueShader = 0\<rparr>"

text \<open>The program \<open>new ShaderProgram("vs", "fs", "example", gl)\<close> on \<open>workingDevice\<close>.\<close>

definition exampleProgram :: ShaderProgram where
  "exampleProgram =
     \<lparr>description = ''example'', vertSource = ''vs'', fragSource = ''fs'',
      glProgram = Some 1, inUse = False, status = Uncompiled,
      programUniforms = [], graphicUniforms = [], attributes = []\<rparr>"

text \<open>The calls of its first \<open>compile\<close> on \<open>constructedDevice\<close>.\<close>

definition exampleCompileCalls :: "gl_call list" where
  "exampleCompileCalls =
     [CreateShader Vertex, ShaderSource 2 ''vs'', CompileShader 2, GetShaderParameter 2,
      CreateShader Fragment, ShaderSource 6 ''fs'', CompileShader 6, GetShaderParameter 6,
      AttachShader 1 2, AttachShader 1 6, LinkProgram 1, GetProgramParameter 1]"

definition badFragmentProgram :: ShaderProgram where
  "badFragmentProgram = exampleProgram\<lparr>fragSource := ''bad''\<rparr>"

definition badFragmentCalls :: "gl_call list" where
  "badFragmentCalls =
     [CreateShader Vertex, ShaderSource 2 ''vs'', CompileShader 2, GetShaderParameter 2,
      CreateShader Fragment, ShaderSource 6 ''bad'', CompileShader 6, GetShaderParameter 6]"

text \<open>The calls of a second \<open>compile\<close> of \<open>badFragmentProgram\<close>, after the nine calls before it.\<close>

definition badFragmentRetryCalls :: "gl_call list" where
  "badFragmentRetryCalls =
     [CreateShader Vertex, ShaderSource 10 ''vs'', CompileShader 10, GetShaderParameter 10,
      CreateShader Fragment, ShaderSource 14 ''bad'', CompileShader 14, GetShaderParameter 14]"

text \<open>\<open>exampleProgram\<close> after \<open>addProgramUniform("u_proj", ...)\<close>, and a second such program.\<close>

definition uniformProgram :: ShaderProgram where
  "uniformProgram =
     exampleProgram\<lparr>programUniforms := [\<lparr>u_name = ''u_proj'', u_handle = None\<rparr>]\<rparr>"

definition secondProgram :: ShaderProgram where
  "secondProgram = uniformProgram\<lparr>description := ''second'', glProgram := Some 2\<rparr>"

definition twoProgramWorld :: World where
  "twoProgramWorld =
     \<lparr>heap = (\<lambda>r. if r = 0 then uniformProgram else secondProgram),
      device = workingDevice\<lparr>calls := [CreateProgram, CreateProgram]\<rparr>\<rparr>"

text \<open>
  A compiled program in use whose descriptors have handles, as \<open>Uniform.compile\<close> and
  \<open>Attribute.compile\<close> would set them.
\<close>

definition drawableProgram :: ShaderProgram where
  "drawableProgram =
     exampleProgram\<lparr>status := Success, inUse := True,
                    graphicUniforms := [\<lparr>u_name = ''u_mvp'', u_handle = Some 3\<rparr>,
                                        \<lparr>u_name = ''u_unused'', u_handle = None\<rparr>,
                                        \<lparr>u_name = ''u_color'', u_handle = Some 4\<rparr>],
                    attributes := [\<lparr>a_name = ''a_pos'', a_handle = Some 0\<rparr>,
                                   \<lparr>a_name = ''a_normal'', a_handle = Some 1\<rparr>]\<rparr>"

text \<open>
  A store of newly constructed programs without descriptors, and the same store after the
  program at reference 0 has been compiled and activated.
\<close>

definition plainWorld :: World where
  "plainWorld = \<lparr>heap = (\<lambda>r. exampleProgram), device = constructedDevice\<rparr>"

definition plainWorldActivated :: World where
  "plainWorldActivated =
     plainWorld\<lparr>heap := (heap plainWorld)(0 := exampleProgram\<lparr>status := Success, inUse := True\<rparr>),
                device := constructedDevice\<lparr>calls := CreateProgram # exampleCompileCalls @ [UseProgram (Some 1)],
                                            currentProgram := Some 1\<rparr>\<rparr>"

text \<open>A store in which the program at reference 0 is compiled, in use and active on the device.\<close>

definition activeWorld :: World where
  "activeWorld =
     \<lparr>heap = (\<lambda>r. exampleProgram\<lparr>status := Success, inUse := (r = 0)\<rparr>),
      device = constructedDevice\<lparr>calls := CreateProgram # exampleCompileCalls @ [UseProgram (Some 1)],
                                 currentProgram := Some 1\<rparr>\<rparr>"

definition idleExecutor :: ShaderProgramExecutor where
  "idleExecutor = \<lparr>x_program = None, x_params = exampleParams\<rparr>"

definition activeExecutor :: ShaderProgramExecutor where
  "activeExecutor = \<lparr>x_program = Some 0, x_params = exampleParams\<rparr>"

section \<open>Shared facts\<close>

lemmas gl_defs = gl_call_unit_def gl_call_object_def gl_call_status_def gl_createProgram_def
  gl_deleteProgram_def gl_createShader_def gl_shaderSource_def gl_compileShader_def
  gl_getShaderParameter_def gl_attachShader_def gl_linkProgram_def gl_getProgramParameter_def
  gl_useProgram_def

lemmas program_defs = compile_def compileShader_def linkProgram_def isValid_def
  assert_throws_def use_def endUse_def draw_def Let_def ProgramUniform_bind_def
  GraphicUniform_bind_def Attribute_bind_def

lemmas executor_defs = on_program_def changeProgram_def setProgram_def executor_draw_def
  drawInterrupt_def executor_dispose_def ShaderProgramExecutor_new_def executor_isValid_def

lemmas example_defs = twoProgramWorld_def secondProgram_def uniformProgram_def
  exampleProgram_def workingDevice_def exampleParams_def exampleDrawParams_def
  constructedDevice_def

subsection \<open>The compile state machine\<close>

lemma compile_cached:
  "status p \<noteq> Uncompiled \<Longrightarrow> compile ae p gl = (Inr (status p = Success), p, gl)"
  by (cases "status p") (simp_all add: compile_def)

lemma compile_status:
  assumes "compile ae p gl = (Inr b, p1, gl1)"
  shows "status p1 = (if b then Success else Failure)"
  using assms
  by (cases "status p")
     (auto simp: compile_def split: if_splits prod.splits sum.splits option.splits bool.splits)

lemma compile_keeps:
  assumes "compile ae p gl = (r, p1, gl1)"
  shows "p1 = p \<or> p1 = p\<lparr>status := Success\<rparr> \<or> p1 = p\<lparr>status := Failure\<rparr>"
  using assms
  by (cases "status p")
     (auto simp: compile_def split: if_splits prod.splits sum.splits option.splits bool.splits)

lemma compile_times_cached:
  "status p \<noteq> Uncompiled \<Longrightarrow>
     compile_times n ae p gl = (replicate n (Inr (status p = Success)), p, gl)"
  by (induction n) (simp_all add: compile_cached)

text \<open>With assertions disabled every call of \<open>compile\<close> returns a boolean.\<close>

lemma compile_returns_without_assertions:
  "\<exists>b p1 gl1. compile False p gl = (Inr b, p1, gl1)"
  by (cases "status p")
     (auto simp: compile_def compileShader_def linkProgram_def assert_throws_def
           split: if_splits prod.splits sum.splits option.splits bool.splits)

subsection \<open>The device calls of compile\<close>

lemma only_compile_calls_refl: "only_compile_calls gl gl"
  unfolding only_compile_calls_def by (rule exI [of _ "[]"]) simp

lemma only_compile_calls_trans:
  assumes "only_compile_calls gl gl1" and "only_compile_calls gl1 gl2"
  shows "only_compile_calls gl gl2"
proof -
  obtain cs where cs: "gl1 = gl\<lparr>calls := calls gl @ cs\<rparr>" "list_all is_compile_or_link cs"
    using assms(1) unfolding only_compile_calls_def by blast
  obtain ds where ds: "gl2 = gl1\<lparr>calls := calls gl1 @ ds\<rparr>" "list_all is_compile_or_link ds"
    using assms(2) unfolding only_compile_calls_def by blast
  have "gl2 = gl\<lparr>calls := calls gl @ (cs @ ds)\<rparr>" using cs(1) ds(1) by simp
  moreover have "list_all is_compile_or_link (cs @ ds)" using cs(2) ds(2) by simp
  ultimately show ?thesis unfolding only_compile_calls_def by blast
qed

lemma compileShader_calls:
  assumes "compileShader ae p ty gl = (r, gl1)"
  shows "only_compile_calls gl gl1"
proof (cases "objectResult gl (calls gl @ [CreateShader ty])")
  case None
  then have "gl1 = gl\<lparr>calls := calls gl @ [CreateShader ty]\<rparr>"
    using assms by (simp add: compileShader_def gl_defs)
  then show ?thesis
    unfolding only_compile_calls_def by (intro exI [of _ "[CreateShader ty]"]) simp
next
  case (Some s)
  define src where "src = (if ty = Vertex then vertSource p else fragSource p)"
  have "gl1 = gl\<lparr>calls := calls gl @ [CreateShader ty, ShaderSource s src, CompileShader s,
                                         GetShaderParameter s]\<rparr>"
    using assms Some
    by (auto simp: compileShader_def gl_defs Let_def src_def split: if_splits)
  then show ?thesis
    unfolding only_compile_calls_def
    by (intro exI [of _ "[CreateShader ty, ShaderSource s src, CompileShader s,
                          GetShaderParameter s]"]) simp
qed

lemma linkProgram_calls:
  assumes "linkProgram ae p v f gl = (r, gl1)"
  shows "only_compile_calls gl gl1"
proof (cases "glProgram p")
  case None
  then have "gl1 = gl"
    using assms by (auto simp: linkProgram_def split: if_splits)
  then show ?thesis by (simp add: only_compile_calls_refl)
next
  case (Some g)
  have "gl1 = gl\<lparr>calls := calls gl @ [AttachShader g v, AttachShader g f, LinkProgram g,
                                         GetProgramParameter g]\<rparr>"
    using assms Some by (auto simp: linkProgram_def assert_throws_def gl_defs Let_def)
  then show ?thesis
    unfolding only_compile_calls_def
    by (intro exI [of _ "[AttachShader g v, AttachShader g f, LinkProgram g,
                          GetProgramParameter g]"]) simp
qed

lemma compile_calls:
  assumes "compile ae p gl = (r, p1, gl1)"
  shows "only_compile_calls gl gl1"
proof (cases "status p = Uncompiled \<and> isValid p")
  case False
  then have "gl1 = gl"
    using assms by (cases "status p") (auto simp: compile_def split: if_splits)
  then show ?thesis by (simp add: only_compile_calls_refl)
next
  case True
  obtain rv glv where v: "compileShader ae p Vertex gl = (rv, glv)"
    by (cases "compileShader ae p Vertex gl")
  obtain rf glf where f: "compileShader ae p Fragment glv = (rf, glf)"
    by (cases "compileShader ae p Fragment glv")
  have vf: "only_compile_calls gl glf"
    using compileShader_calls [OF v] compileShader_calls [OF f]
    by (rule only_compile_calls_trans)
  show ?thesis
  proof (cases "\<exists>sv sf. rv = Inr (Some sv) \<and> rf = Inr (Some sf)")
    case False
    then have "gl1 = glv \<or> gl1 = glf"
      using assms True v f
      by (auto simp: compile_def split: sum.splits option.splits)
    then show ?thesis using vf compileShader_calls [OF v] by auto
  next
    case both: True
    then obtain sv sf where s: "rv = Inr (Some sv)" "rf = Inr (Some sf)" by blast
    obtain rl gll where l: "linkProgram ae p sv sf glf = (rl, gll)"
      by (cases "linkProgram ae p sv sf glf")
    have "gl1 = gll"
      using assms True v f s l
      by (auto simp: compile_def split: sum.splits bool.splits)
    then show ?thesis
      using vf linkProgram_calls [OF l] by (auto intro: only_compile_calls_trans)
  qed
qed

lemma compile_or_link_not_activation:
  "is_compile_or_link c \<Longrightarrow> \<not> is_useProgram c \<and> \<not> is_bind c"
  by (cases c) simp_all

subsection \<open>The example inputs\<close>

lemma example_new:
  "ShaderProgram_new ''vs'' ''fs'' ''example'' workingDevice = (exampleProgram, constructedDevice)"
  by (simp add: ShaderProgram_new_def gl_defs workingDevice_def exampleProgram_def
        constructedDevice_def)

lemma example_compile:
  "compile ae exampleProgram constructedDevice =
     (Inr True, exampleProgram\<lparr>status := Success\<rparr>,
      constructedDevice\<lparr>calls := CreateProgram # exampleCompileCalls\<rparr>)"
  by (simp add: program_defs gl_defs exampleProgram_def workingDevice_def constructedDevice_def
        exampleCompileCalls_def)

lemma badFragment_compile:
  "compile False badFragmentProgram (rejectingDevice\<lparr>calls := [CreateProgram]\<rparr>) =
     (Inr False, badFragmentProgram\<lparr>status := Failure\<rparr>,
      rejectingDevice\<lparr>calls := CreateProgram # badFragmentCalls\<rparr>)"
  by (simp add: program_defs gl_defs exampleProgram_def badFragmentProgram_def
        rejectingDevice_def badFragmentCalls_def)

lemma badFragment_new:
  "ShaderProgram_new ''vs'' ''bad'' ''example'' rejectingDevice =
     (badFragmentProgram, rejectingDevice\<lparr>calls := [CreateProgram]\<rparr>)"
  by (simp add: ShaderProgram_new_def gl_defs rejectingDevice_def badFragmentProgram_def
        exampleProgram_def)

lemma badFragmentProgram_reachable: "reachable badFragmentProgram"
  using badFragment_new by (rule reachable.new)

lemma uniformProgram_registered:
  "addProgramUniform ae exampleProgram ''u_proj'' = (Inr (), uniformProgram)"
  by (simp add: addProgramUniform_def assert_throws_def isUncompiled_def uniformProgram_def
        exampleProgram_def ProgramUniform_new_def)

lemma exampleProgram_reachable: "reachable exampleProgram"
  using example_new by (rule reachable.new)

lemma uniformProgram_reachable: "reachable uniformProgram"
  using exampleProgram_reachable uniformProgram_registered by (rule reachable.addProgramUniform)

lemma lost_new:
  "ShaderProgram_new ''vs'' ''fs'' ''example'' lostDevice =
     (exampleProgram\<lparr>glProgram := None\<rparr>, lostDevice\<lparr>calls := [CreateProgram]\<rparr>)"
  by (simp add: ShaderProgram_new_def gl_defs lostDevice_def exampleProgram_def)

section \<open>ShaderProgram.compile\<close>

text \<open>
  Claim C3 as it is stated, for every program and every sequence of \<open>compile\<close> calls, fails
  when assertions are enabled. The program is the one the constructor returns for the
  fragment source \<open>bad\<close> on \<open>rejectingDevice\<close>. Its first \<open>compile\<close> throws at
  \<open>assert(succeeded)\<close> in \<open>compileShader\<close> and leaves the status \<open>Uncompiled\<close>; its second
  \<open>compile\<close> throws again, after eight further shader-compile calls on the device.
\<close>

theorem compile_throws_then_recompiles:
  "ShaderProgram_new ''vs'' ''bad'' ''example'' rejectingDevice =
     (badFragmentProgram, rejectingDevice\<lparr>calls := [CreateProgram]\<rparr>)
   \<and> compile True badFragmentProgram (rejectingDevice\<lparr>calls := [CreateProgram]\<rparr>) =
       (Inl AssertionFailed, badFragmentProgram,
        rejectingDevice\<lparr>calls := CreateProgram # badFragmentCalls\<rparr>)
   \<and> status badFragmentProgram = Uncompiled
   \<and> compile True badFragmentProgram (rejectingDevice\<lparr>calls := CreateProgram # badFragmentCalls\<rparr>) =
       (Inl AssertionFailed, badFragmentProgram,
        rejectingDevice\<lparr>calls := CreateProgram # badFragmentCalls @ badFragmentRetryCalls\<rparr>)
   \<and> list_all is_compile_or_link badFragmentRetryCalls"
  by (simp add: program_defs gl_defs ShaderProgram_new_def exampleProgram_def
        badFragmentProgram_def rejectingDevice_def badFragmentCalls_def badFragmentRetryCalls_def)

text \<open>
  Claim C3, amended. From the first call of \<open>compile\<close> that returns a boolean \<open>b\<close> on, every
  later call on that program returns \<open>b\<close> again and leaves the program and the device as
  they are, whatever the device has become in between and whether or not assertions are
  enabled: no shader-compile or link call is issued. In particular, of \<open>n + 1\<close> calls in a
  row of which the first returns \<open>b\<close>, each returns \<open>b\<close>, and the state after the last is
  the state after the first.
\<close>

theorem compile_idempotent:
  assumes "compile ae p gl = (Inr b, p1, gl1)"
  shows "compile ae' p1 gl' = (Inr b, p1, gl')
       \<and> compile_times (Suc n) ae p gl = (replicate (Suc n) (Inr b), p1, gl1)"
proof -
  have st: "status p1 = (if b then Success else Failure)"
    using assms by (rule compile_status)
  then have terminal: "status p1 \<noteq> Uncompiled" by simp
  have same: "(status p1 = Success) = b" using st by simp
  have again: "compile ae' p1 gl' = (Inr b, p1, gl')"
    using compile_cached [OF terminal, of ae' gl'] same by simp
  have "compile_times n ae p1 gl1 = (replicate n (Inr (status p1 = Success)), p1, gl1)"
    using terminal by (rule compile_times_cached)
  then have "compile_times (Suc n) ae p gl = (replicate (Suc n) (Inr b), p1, gl1)"
    using assms same by simp
  with again show ?thesis by simp
qed

theorem compile_idempotent_witness:
  "compile True exampleProgram constructedDevice =
     (Inr True, exampleProgram\<lparr>status := Success\<rparr>,
      constructedDevice\<lparr>calls := CreateProgram # exampleCompileCalls\<rparr>)
   \<and> compile False (exampleProgram\<lparr>status := Success\<rparr>) lostDevice =
       (Inr True, exampleProgram\<lparr>status := Success\<rparr>, lostDevice)
   \<and> compile_times (Suc 2) True exampleProgram constructedDevice =
       (replicate (Suc 2) (Inr True), exampleProgram\<lparr>status := Success\<rparr>,
        constructedDevice\<lparr>calls := CreateProgram # exampleCompileCalls\<rparr>)"
  using compile_idempotent [OF example_compile [of True], of False lostDevice 2]
  by (simp add: example_compile)

section \<open>ShaderProgram.use after a failed compile\<close>

text \<open>
  Claim C6. When the \<open>compile\<close> that \<open>use\<close> begins with returns false (the status was
  \<open>Failure\<close> already, or this compile fails), \<open>use\<close> returns false and stops there: the
  program is as \<open>compile\<close> left it, with status \<open>Failure\<close> and its in-use flag as before;
  the device's active program is unchanged, and no call issued meanwhile activates a program
  or invokes a binding closure.
\<close>

theorem use_after_failed_compile:
  assumes "compile ae p gl = (Inr False, p1, gl1)"
  shows "use ae p params gl = (Inr False, p1, gl1)
       \<and> status p1 = Failure \<and> inUse p1 = inUse p
       \<and> currentProgram gl1 = currentProgram gl
       \<and> (\<exists>cs. calls gl1 = calls gl @ cs
               \<and> list_all (\<lambda>c. \<not> is_useProgram c \<and> \<not> is_bind c) cs)"
proof -
  have u: "use ae p params gl = (Inr False, p1, gl1)"
    using assms by (simp add: use_def)
  have s: "status p1 = Failure"
    using compile_status [OF assms] by simp
  have i: "inUse p1 = inUse p"
    using compile_keeps [OF assms] by auto
  obtain cs where cs: "gl1 = gl\<lparr>calls := calls gl @ cs\<rparr>" "list_all is_compile_or_link cs"
    using compile_calls [OF assms] unfolding only_compile_calls_def by blast
  have "list_all (\<lambda>c. \<not> is_useProgram c \<and> \<not> is_bind c) cs"
    using cs(2) compile_or_link_not_activation by (simp add: list_all_iff)
  then have "\<exists>cs. calls gl1 = calls gl @ cs
                 \<and> list_all (\<lambda>c. \<not> is_useProgram c \<and> \<not> is_bind c) cs"
    using cs(1) by auto
  moreover have "currentProgram gl1 = currentProgram gl" using cs(1) by simp
  ultimately show ?thesis using u s i by simp
qed

theorem use_after_failed_compile_witness:
  "compile False badFragmentProgram (rejectingDevice\<lparr>calls := [CreateProgram]\<rparr>) =
     (Inr False, badFragmentProgram\<lparr>status := Failure\<rparr>,
      rejectingDevice\<lparr>calls := CreateProgram # badFragmentCalls\<rparr>)
   \<and> use False badFragmentProgram exampleParams (rejectingDevice\<lparr>calls := [CreateProgram]\<rparr>) =
     (Inr False, badFragmentProgram\<lparr>status := Failure\<rparr>,
      rejectingDevice\<lparr>calls := CreateProgram # badFragmentCalls\<rparr>)
   \<and> inUse (badFragmentProgram\<lparr>status := Failure\<rparr>) = inUse badFragmentProgram
   \<and> currentProgram (rejectingDevice\<lparr>calls := CreateProgram # badFragmentCalls\<rparr>) =
       currentProgram (rejectingDevice\<lparr>calls := [CreateProgram]\<rparr>)
   \<and> list_all (\<lambda>c. \<not> is_useProgram c \<and> \<not> is_bind c) badFragmentCalls"
  using use_after_failed_compile [OF badFragment_compile, of exampleParams]
  by (simp add: badFragment_compile badFragmentCalls_def)

section \<open>Programs without a device program object\<close>

lemma compile_consistent:
  "consistent p \<Longrightarrow> compile ae p gl = (r, p1, gl1) \<Longrightarrow> consistent p1"
  by (cases "status p")
     (auto simp: consistent_def compile_def isValid_def
           split: if_splits prod.splits sum.splits option.splits bool.splits)

lemma use_result_program:
  assumes "compile ae p gl = (rc, pc, glc)" and "use ae p params gl = (r, p1, gl1)"
  shows "p1 = pc \<or> p1 = pc\<lparr>inUse := True\<rparr>"
  using assms
  by (auto simp: use_def Let_def
           split: sum.splits bool.splits if_splits option.splits prod.splits)

lemma use_consistent:
  assumes "consistent p" and "use ae p params gl = (r, p1, gl1)"
  shows "consistent p1"
proof -
  obtain rc pc glc where c: "compile ae p gl = (rc, pc, glc)"
    by (cases "compile ae p gl")
  have pc: "consistent pc" using assms(1) c by (rule compile_consistent)
  show ?thesis
    using use_result_program [OF c assms(2)] pc by (auto simp: consistent_def)
qed

lemma reachable_consistent: "reachable p \<Longrightarrow> consistent p"
proof (induction rule: reachable.induct)
  case (new vert frag descr gl p gl1)
  then show ?case
    by (auto simp: ShaderProgram_new_def consistent_def split: prod.splits)
next
  case (compile p ae gl r p1 gl1)
  then show ?case by (auto intro: compile_consistent)
next
  case (use p ae params gl r p1 gl1)
  then show ?case by (auto intro: use_consistent)
next
  case (endUse p ae gl ru p1 gl1)
  then show ?case by (auto simp: endUse_def consistent_def split: if_splits)
next
  case (draw p ae dparams gl ru p1 gl1)
  then show ?case by (auto simp: draw_def Let_def split: if_splits)
next
  case (dispose p ae gl ru p1 gl1)
  then show ?case by (auto simp: dispose_def consistent_def split: if_splits option.splits)
next
  case (addProgramUniform p ae n ru p1)
  then show ?case by (auto simp: addProgramUniform_def consistent_def split: if_splits)
next
  case (addGraphicUniform p ae n ru p1)
  then show ?case by (auto simp: addGraphicUniform_def consistent_def split: if_splits)
next
  case (addAttribute p ae n ru p1)
  then show ?case by (auto simp: addAttribute_def consistent_def split: if_splits)
qed

text \<open>The two ways a program comes to have no device program object.\<close>

lemma ShaderProgram_new_null:
  "objectResult gl (calls gl @ [CreateProgram]) = None \<Longrightarrow>
     glProgram (fst (ShaderProgram_new vert frag descr gl)) = None
     \<and> status (fst (ShaderProgram_new vert frag descr gl)) = Uncompiled"
  by (simp add: ShaderProgram_new_def gl_createProgram_def gl_call_object_def)

lemma dispose_releases:
  "dispose ae p gl = (Inr (), p1, gl1) \<Longrightarrow> glProgram p1 = None"
  by (auto simp: dispose_def split: option.splits if_splits)

text \<open>
  Claim C10. A program that has no device program object (the constructor's
  \<open>createProgram\<close> returned \<open>null\<close>, or \<open>dispose\<close> released it) never has status \<open>Success\<close>,
  so \<open>compile\<close> returns false, leaves the status \<open>Failure\<close> and issues no device call; any
  later \<open>compile\<close> returns false again, from the cached status, on any device.
\<close>

theorem compile_without_device_program:
  assumes "reachable p" and "glProgram p = None"
  shows "compile ae p gl = (Inr False, p\<lparr>status := Failure\<rparr>, gl)
       \<and> compile ae' (p\<lparr>status := Failure\<rparr>) gl' = (Inr False, p\<lparr>status := Failure\<rparr>, gl')"
proof -
  have "status p \<noteq> Success"
    using reachable_consistent [OF assms(1)] assms(2) by (simp add: consistent_def)
  then have "compile ae p gl = (Inr False, p\<lparr>status := Failure\<rparr>, gl)"
    using assms(2) by (cases "status p") (simp_all add: compile_def isValid_def)
  moreover have "compile ae' (p\<lparr>status := Failure\<rparr>) gl' = (Inr False, p\<lparr>status := Failure\<rparr>, gl')"
    by (simp add: compile_def)
  ultimately show ?thesis by simp
qed

theorem compile_without_device_program_witness:
  "reachable (exampleProgram\<lparr>glProgram := None\<rparr>)
   \<and> glProgram (exampleProgram\<lparr>glProgram := None\<rparr>) = None
   \<and> compile True (exampleProgram\<lparr>glProgram := None\<rparr>) (lostDevice\<lparr>calls := [CreateProgram]\<rparr>) =
       (Inr False, exampleProgram\<lparr>glProgram := None, status := Failure\<rparr>,
        lostDevice\<lparr>calls := [CreateProgram]\<rparr>)
   \<and> compile True (exampleProgram\<lparr>glProgram := None, status := Failure\<rparr>) workingDevice =
       (Inr False, exampleProgram\<lparr>glProgram := None, status := Failure\<rparr>, workingDevice)"
proof -
  have r: "reachable (exampleProgram\<lparr>glProgram := None\<rparr>)"
    using lost_new by (rule reachable.new)
  have g: "glProgram (exampleProgram\<lparr>glProgram := None\<rparr>) = None" by simp
  show ?thesis
    using r g compile_without_device_program
      [OF r g, of True "lostDevice\<lparr>calls := [CreateProgram]\<rparr>" True workingDevice]
    by simp
qed

section \<open>Handles of the registered descriptors\<close>

lemma compile_unresolved:
  "unresolved p \<Longrightarrow> compile ae p gl = (r, p1, gl1) \<Longrightarrow> unresolved p1"
  using compile_keeps [of ae p gl r p1 gl1] by (auto simp: unresolved_def)

lemma use_unresolved:
  assumes "unresolved p" and "use ae p params gl = (r, p1, gl1)"
  shows "unresolved p1"
proof -
  obtain rc pc glc where c: "compile ae p gl = (rc, pc, glc)"
    by (cases "compile ae p gl")
  have pc: "unresolved pc" using assms(1) c by (rule compile_unresolved)
  show ?thesis
    using use_result_program [OF c assms(2)] pc by (auto simp: unresolved_def)
qed

text \<open>
  No public method of \<open>ShaderProgram\<close> calls \<open>Uniform.compile\<close> or \<open>Attribute.compile\<close>, and the
  descriptor lists are private: no program that exists has a descriptor with a handle.
\<close>

lemma reachable_unresolved: "reachable p \<Longrightarrow> unresolved p"
proof (induction rule: reachable.induct)
  case (new vert frag descr gl p gl1)
  then show ?case
    by (auto simp: ShaderProgram_new_def unresolved_def split: prod.splits)
next
  case (compile p ae gl r p1 gl1)
  then show ?case by (auto intro: compile_unresolved)
next
  case (use p ae params gl r p1 gl1)
  then show ?case by (auto intro: use_unresolved)
next
  case (endUse p ae gl ru p1 gl1)
  then show ?case by (auto simp: endUse_def unresolved_def split: if_splits)
next
  case (draw p ae dparams gl ru p1 gl1)
  then show ?case by (auto simp: draw_def Let_def split: if_splits)
next
  case (dispose p ae gl ru p1 gl1)
  then show ?case by (auto simp: dispose_def unresolved_def split: if_splits option.splits)
next
  case (addProgramUniform p ae n ru p1)
  then show ?case
    by (auto simp: addProgramUniform_def unresolved_def ProgramUniform_new_def split: if_splits)
next
  case (addGraphicUniform p ae n ru p1)
  then show ?case
    by (auto simp: addGraphicUniform_def unresolved_def GraphicUniform_new_def split: if_splits)
next
  case (addAttribute p ae n ru p1)
  then show ?case
    by (auto simp: addAttribute_def unresolved_def Attribute_new_def split: if_splits)
qed

text \<open>What the descriptor's own \<open>compile\<close> does when it is called: it sets the handle to the device's answer.\<close>

lemma Uniform_compile_resolves:
  assumes "u_handle u = None" and "glProgram prog = Some g"
    and "objectResult gl (calls gl @ [GetUniformLocation g (u_name u)]) = Some h"
  shows "Uniform_compile ae u gl prog =
           (Inr True, u\<lparr>u_handle := Some h\<rparr>,
            gl\<lparr>calls := calls gl @ [GetUniformLocation g (u_name u)]\<rparr>)"
  using assms
  by (simp add: Uniform_compile_def Uniform_isValid_def assert_throws_def UniformHandle_create_def
        gl_call_object_def)

text \<open>
  Claim C9, on the code. A program is constructed on \<open>workingDevice\<close>, one program-scoped
  uniform, one graphic-scoped uniform and one attribute are registered, and \<open>compile\<close> is
  called: it returns true and sets the status to \<open>Success\<close>, its device calls are the shader
  and link calls only, and each of the three descriptors is still without a handle.
\<close>

theorem compile_resolves_no_handle:
  "(case addProgramUniform True exampleProgram ''u_proj'' of
      (r1, p1) \<Rightarrow>
        (case addGraphicUniform True p1 ''u_mvp'' of
           (r2, p2) \<Rightarrow>
             (case addAttribute True p2 ''a_pos'' of
                (r3, p3) \<Rightarrow>
                  (case compile True p3 constructedDevice of
                     (r, p4, gl) \<Rightarrow>
                       (r, status p4, programUniforms p4, graphicUniforms p4, attributes p4,
                        calls gl)))))
     = (Inr True, Success, [\<lparr>u_name = ''u_proj'', u_handle = None\<rparr>],
        [\<lparr>u_name = ''u_mvp'', u_handle = None\<rparr>], [\<lparr>a_name = ''a_pos'', a_handle = None\<rparr>],
        CreateProgram # exampleCompileCalls)"
  by (simp add: program_defs gl_defs example_defs addProgramUniform_def addGraphicUniform_def
        addAttribute_def isUncompiled_def ProgramUniform_new_def GraphicUniform_new_def
        Attribute_new_def exampleCompileCalls_def)

section \<open>ShaderProgram.use after a successful compile\<close>

text \<open>
  The loop of \<open>use\<close> leaves at its first uniform: \<open>bind\<close> returns \<open>undefined\<close>, and
  \<open>!undefined\<close> is true.
\<close>

lemma use_bindProgramUniforms_first:
  "use_bindProgramUniforms (u # us) params gl = (False, snd (ProgramUniform_bind u params gl))"
  by (simp add: ProgramUniform_bind_def split: option.splits)

lemma use_without_program_uniforms:
  assumes "compile ae p gl = (Inr True, p1, gl1)" and "glProgram p1 = Some g"
    and "\<not> inUse p1" and "programUniforms p1 = []"
  shows "use ae p params gl = (Inr True, p1\<lparr>inUse := True\<rparr>, gl_useProgram (Some g) gl1)"
  using assms by (simp add: use_def assert_throws_def)

lemma use_with_program_uniforms:
  assumes "compile ae p gl = (Inr True, p1, gl1)" and "glProgram p1 = Some g"
    and "\<not> inUse p1" and "programUniforms p1 = u # us"
  shows "use ae p params gl =
           (Inr False, p1\<lparr>inUse := True\<rparr>,
            snd (ProgramUniform_bind u params (gl_useProgram (Some g) gl1)))"
  using assms
  by (simp add: use_def assert_throws_def use_bindProgramUniforms_first
        del: use_bindProgramUniforms.simps)

text \<open>
  Claim C1, on the code. \<open>uniformProgram\<close> is a newly constructed program with one
  program-scoped uniform registered. On \<open>constructedDevice\<close> its compilation succeeds, and
  \<open>use\<close> marks it in use and activates it on the device, then returns false, with
  assertions enabled and with assertions disabled.
\<close>

theorem use_with_program_uniform_fails:
  "compile True uniformProgram constructedDevice =
     (Inr True, uniformProgram\<lparr>status := Success\<rparr>,
      constructedDevice\<lparr>calls := CreateProgram # exampleCompileCalls\<rparr>)
   \<and> use True uniformProgram exampleParams constructedDevice =
     (Inr False, uniformProgram\<lparr>status := Success, inUse := True\<rparr>,
      constructedDevice\<lparr>calls := CreateProgram # exampleCompileCalls @ [UseProgram (Some 1)],
                        currentProgram := Some 1\<rparr>)
   \<and> fst (use False uniformProgram exampleParams constructedDevice) = Inr False"
  by (simp add: program_defs gl_defs example_defs exampleCompileCalls_def)

section \<open>ShaderProgram.draw\<close>

lemma fold_GraphicUniform_bind:
  "fold (\<lambda>u. GraphicUniform_bind u params) us gl =
     gl\<lparr>calls := calls gl @ graphicUniformBinds us params\<rparr>"
  by (induction us arbitrary: gl)
     (simp_all add: graphicUniformBinds_def GraphicUniform_bind_def gl_call_unit_def
        split: option.splits)

lemma fold_Attribute_bind:
  "fold (\<lambda>a. Attribute_bind a params) as gl =
     gl\<lparr>calls := calls gl @ attributeBinds as params\<rparr>"
  by (induction as arbitrary: gl)
     (simp_all add: attributeBinds_def Attribute_bind_def gl_call_unit_def split: option.splits)

text \<open>When every handle is resolved, there is one closure invocation for each descriptor.\<close>

lemma graphicUniformBinds_resolved:
  "list_all Uniform_isValid us \<Longrightarrow>
     graphicUniformBinds us params =
       map (\<lambda>u. BindGraphicUniform (u_name u) (the (u_handle u)) params) us"
  by (induction us) (auto simp: graphicUniformBinds_def Uniform_isValid_def)

lemma attributeBinds_resolved:
  "list_all Attribute_isValid as \<Longrightarrow>
     attributeBinds as params =
       map (\<lambda>a. BindAttribute (a_name a) (the (a_handle a)) params) as"
  by (induction as) (auto simp: attributeBinds_def Attribute_isValid_def)

text \<open>
  Claim C8. For a program that is in use, \<open>draw\<close> returns, leaves the program as it is, and
  adds to the device's calls the binds of the graphic-scoped uniforms, in registration order,
  followed by the binds of the attributes, in registration order, and nothing else: every
  uniform bind comes before every attribute bind. (\<open>bind\<close> skips a descriptor whose handle is
  not resolved.)
\<close>

theorem draw_binds_uniforms_then_attributes:
  assumes "inUse p"
  shows "draw ae p params gl =
           (Inr (), p,
            gl\<lparr>calls := calls gl @ graphicUniformBinds (graphicUniforms p) params
                                  @ attributeBinds (attributes p) params\<rparr>)"
  using assms
  by (simp add: draw_def assert_throws_def fold_GraphicUniform_bind fold_Attribute_bind)

theorem draw_binds_uniforms_then_attributes_witness:
  "inUse drawableProgram
   \<and> draw True drawableProgram exampleDrawParams constructedDevice =
       (Inr (), drawableProgram,
        constructedDevice\<lparr>calls := [CreateProgram,
           BindGraphicUniform ''u_mvp'' 3 exampleDrawParams,
           BindGraphicUniform ''u_color'' 4 exampleDrawParams,
           BindAttribute ''a_pos'' 0 exampleDrawParams,
           BindAttribute ''a_normal'' 1 exampleDrawParams]\<rparr>)"
  using draw_binds_uniforms_then_attributes
    [of drawableProgram True exampleDrawParams constructedDevice]
  by (simp add: drawableProgram_def exampleProgram_def graphicUniformBinds_def
        attributeBinds_def constructedDevice_def workingDevice_def)

section \<open>ShaderProgramExecutor\<close>

text \<open>
  Claim C7. When the executor's active program is the one passed to \<open>setProgram\<close>,
  \<open>changeProgram\<close> returns true at its first test: the executor, every program of the store
  and the device (its calls included) are unchanged.
\<close>

theorem setProgram_same_program:
  assumes "x_program x = Some r"
  shows "changeProgram ae x (Some r) w = (Inr True, x, w)
       \<and> setProgram ae x r w = (Inr Undefined, x, w)"
  using assms by (simp add: setProgram_def changeProgram_def)

theorem setProgram_same_program_witness:
  "x_program activeExecutor = Some 0
   \<and> changeProgram True activeExecutor (Some 0) activeWorld = (Inr True, activeExecutor, activeWorld)
   \<and> setProgram True activeExecutor 0 activeWorld = (Inr Undefined, activeExecutor, activeWorld)"
  using setProgram_same_program [of activeExecutor 0 True activeWorld]
  by (simp add: activeExecutor_def)

text \<open>
  \<open>drawInterrupt\<close> is \<open>changeProgram\<close> and nothing more: \<open>setProgram\<close> returns \<open>undefined\<close>,
  so the branch that calls \<open>draw\<close> is never taken.
\<close>

lemma drawInterrupt_is_changeProgram:
  "drawInterrupt ae x params w =
     (if assert_throws ae (dp_target params = sp_target (x_params x))
      then (Inl AssertionFailed, x, w)
      else case changeProgram ae x (Some (dp_techniqueShader params)) w of
             (Inl e, x1, w1) \<Rightarrow> (Inl e, x1, w1)
           | (Inr b, x1, w1) \<Rightarrow> (Inr (), x1, w1))"
  by (simp add: drawInterrupt_def setProgram_def Let_def split: prod.splits sum.splits)

lemma drawInterrupt_calls_no_draw:
  "drawInterrupt_calls ae x params w =
     (if assert_throws ae (dp_target params = sp_target (x_params x)) then []
      else [SetProgramCall (dp_techniqueShader params)])"
  by (simp add: drawInterrupt_calls_def setProgram_def Let_def split: prod.splits sum.splits)

text \<open>
  On a program that exists, no descriptor has a handle, so \<open>draw\<close> itself adds no device
  call: whether \<open>draw\<close> was called shows in the calls made, not in the device.
\<close>

lemma draw_reachable_noop:
  assumes "reachable p" and "inUse p"
  shows "draw ae p params gl = (Inr (), p, gl)"
proof -
  have u: "unresolved p" using assms(1) by (rule reachable_unresolved)
  have g: "graphicUniformBinds us params = []" if "list_all (\<lambda>u. u_handle u = None) us" for us
    using that by (induction us) (auto simp: graphicUniformBinds_def)
  have a: "attributeBinds as params = []" if "list_all (\<lambda>a. a_handle a = None) as" for as
    using that by (induction as) (auto simp: attributeBinds_def)
  show ?thesis
    using u assms(2) g [of "graphicUniforms p"] a [of "attributes p"]
    by (simp add: draw_def assert_throws_def fold_GraphicUniform_bind fold_Attribute_bind
          unresolved_def)
qed

text \<open>
  Claim C2, on the code. The executor holds no program, and every program of the store is a
  newly constructed one, without descriptors. The program that the technique resolves to can
  be activated: \<open>changeProgram\<close> compiles it, activates it and returns true. \<open>setProgram\<close>
  returns \<open>undefined\<close>, which is not truthy, so \<open>drawInterrupt\<close> returns in the state
  \<open>setProgram\<close> left, and the one call it has made on its executor is \<open>setProgram\<close>:
  \<open>draw\<close> is not called, with assertions enabled or disabled.
\<close>

theorem drawInterrupt_skips_draw:
  "reachable exampleProgram
   \<and> changeProgram True idleExecutor (Some 0) plainWorld = (Inr True, activeExecutor, plainWorldActivated)
   \<and> setProgram True idleExecutor 0 plainWorld = (Inr Undefined, activeExecutor, plainWorldActivated)
   \<and> truthy Undefined = False
   \<and> drawInterrupt True idleExecutor exampleDrawParams plainWorld =
       (Inr (), activeExecutor, plainWorldActivated)
   \<and> drawInterrupt_calls True idleExecutor exampleDrawParams plainWorld = [SetProgramCall 0]
   \<and> drawInterrupt_calls False idleExecutor exampleDrawParams plainWorld = [SetProgramCall 0]"
  using exampleProgram_reachable
  by (simp add: drawInterrupt_calls_def executor_defs program_defs gl_defs plainWorld_def
        plainWorldActivated_def idleExecutor_def activeExecutor_def example_defs
        exampleCompileCalls_def)

subsection \<open>The executor on programs without program-scoped uniforms\<close>

text \<open>
  For a program with no program-scoped uniform, \<open>use\<close> returns true exactly when it has
  marked the program in use and made it the device's active program.
\<close>

lemma use_cases:
  assumes u: "use ae p params gl = (Inr b, p1, gl1)"
    and e: "programUniforms p = []" and n: "\<not> inUse p"
  shows "programUniforms p1 = []
       \<and> (if b then inUse p1 \<and> glProgram p1 \<noteq> None \<and> currentProgram gl1 = glProgram p1
           else \<not> inUse p1 \<and> currentProgram gl1 = currentProgram gl)"
proof -
  obtain rc pc glc where c: "compile ae p gl = (rc, pc, glc)"
    by (cases "compile ae p gl")
  have k: "programUniforms pc = [] \<and> \<not> inUse pc"
    using compile_keeps [OF c] e n by auto
  obtain cs where cs: "glc = gl\<lparr>calls := calls gl @ cs\<rparr>"
    using compile_calls [OF c] unfolding only_compile_calls_def by blast
  then have cur: "currentProgram glc = currentProgram gl" by simp
  show ?thesis
  proof (cases "rc = Inr True \<and> glProgram pc \<noteq> None")
    case True
    then obtain g where g: "glProgram pc = Some g" by auto
    have "use ae p params gl = (Inr True, pc\<lparr>inUse := True\<rparr>, gl_useProgram (Some g) glc)"
      using c True g k by (intro use_without_program_uniforms) auto
    then show ?thesis using u k g by (auto simp: gl_useProgram_def)
  next
    case False
    then have "b = False \<and> p1 = pc \<and> gl1 = glc"
      using u c
      by (auto simp: use_def Let_def split: sum.splits bool.splits if_splits option.splits)
    then show ?thesis using k cur by simp
  qed
qed

text \<open>
  On a store whose programs have no program-scoped uniform, a \<open>changeProgram\<close> that
  returns keeps the executor's reference mirroring the store and the device. The
  constructor, \<open>setProgram\<close>, \<open>drawInterrupt\<close> and \<open>dispose\<close> are \<open>changeProgram\<close>.
\<close>

lemma changeProgram_mirrors:
  assumes m: "mirrors x w" and e: "no_program_uniforms w"
    and c: "changeProgram ae x program w = (Inr b, x1, w1)"
  shows "mirrors x1 w1 \<and> no_program_uniforms w1"
proof (cases "x_program x = program")
  case True
  then show ?thesis using m e c by (simp add: changeProgram_def)
next
  case False
  define w0 where "w0 = (case x_program x of
      None \<Rightarrow> w
    | Some old \<Rightarrow> w\<lparr>heap := (heap w)(old := (heap w old)\<lparr>inUse := False\<rparr>),
                   device := gl_useProgram None (device w)\<rparr>)"
  have ended: "(case x_program x of
                  None \<Rightarrow> (Inr (), w)
                | Some old \<Rightarrow> on_program (endUse ae) old w) = (Inr (), w0)"
    using m by (auto simp: w0_def mirrors_def on_program_def endUse_def assert_throws_def
                     split: option.splits)
  have idle: "(\<forall>r. \<not> inUse (heap w0 r)) \<and> currentProgram (device w0) = None"
    using m by (auto simp: w0_def mirrors_def gl_useProgram_def split: option.splits)
  have e0: "no_program_uniforms w0"
    using e by (auto simp: w0_def no_program_uniforms_def split: option.splits)
  have cp: "changeProgram ae x program w =
      (case program of
         None \<Rightarrow> (Inr True, x\<lparr>x_program := None\<rparr>, w0)
       | Some r \<Rightarrow>
           (case on_program (\<lambda>p. use ae p (x_params x)) r w0 of
              (Inl e, w2) \<Rightarrow> (Inl e, x\<lparr>x_program := Some r\<rparr>, w2)
            | (Inr False, w2) \<Rightarrow> (Inr False, x\<lparr>x_program := None\<rparr>, w2)
            | (Inr True, w2) \<Rightarrow> (Inr True, x\<lparr>x_program := Some r\<rparr>, w2)))"
    unfolding changeProgram_def ended using False
    by (simp add: Let_def split: option.splits prod.splits sum.splits bool.splits)
  show ?thesis
  proof (cases program)
    case None
    then have "x1 = x\<lparr>x_program := None\<rparr> \<and> w1 = w0"
      using c cp by simp
    then show ?thesis using idle e0 by (simp add: mirrors_def)
  next
    case (Some r)
    obtain ru pu glu where u: "use ae (heap w0 r) (x_params x) (device w0) = (ru, pu, glu)"
      by (cases "use ae (heap w0 r) (x_params x) (device w0)")
    have w1: "w1 = w0\<lparr>heap := (heap w0)(r := pu), device := glu\<rparr> \<and> ru = Inr b
              \<and> x1 = x\<lparr>x_program := (if b then Some r else None)\<rparr>"
      using c cp Some u
      by (auto simp: on_program_def split: sum.splits bool.splits)
    have uc: "programUniforms pu = []
       \<and> (if b then inUse pu \<and> glProgram pu \<noteq> None \<and> currentProgram glu = glProgram pu
           else \<not> inUse pu \<and> currentProgram glu = currentProgram (device w0))"
      using u w1 e0 idle
      by (intro use_cases [of ae "heap w0 r" "x_params x" "device w0"])
         (auto simp: no_program_uniforms_def)
    show ?thesis
      using w1 uc idle e0 by (auto simp: mirrors_def no_program_uniforms_def)
  qed
qed

lemma mirrors_at_most_one_in_use:
  "mirrors x w \<Longrightarrow> inUse (heap w r) \<Longrightarrow> inUse (heap w r') \<Longrightarrow> r = r'"
  by (simp add: mirrors_def)

text \<open>From a mirroring state \<open>dispose\<close> returns and leaves no program in use and none active.\<close>

lemma dispose_after_mirrors:
  assumes "mirrors x w"
  shows "\<exists>w1. executor_dispose ae x w = (Inr (), x\<lparr>x_program := None\<rparr>, w1)
            \<and> (\<forall>r. \<not> inUse (heap w1 r)) \<and> currentProgram (device w1) = None"
proof (cases "x_program x")
  case None
  then show ?thesis
    using assms by (simp add: executor_dispose_def changeProgram_def mirrors_def)
next
  case (Some old)
  then show ?thesis
    using assms
    by (auto simp: executor_dispose_def changeProgram_def mirrors_def on_program_def
          endUse_def assert_throws_def gl_useProgram_def)
qed

text \<open>
  Claim C4, on the code. The store holds two newly constructed programs, each with one
  program-scoped uniform. An executor is constructed with the first and \<open>setProgram\<close> is
  called with the second. Both activations return false after marking their program in use,
  so the executor holds no program and both programs are in use. No assertion fails.
\<close>

theorem two_programs_in_use:
  "(case ShaderProgramExecutor_new True 0 0 (Some 0) twoProgramWorld of
      (r1, x1, w1) \<Rightarrow>
        (case setProgram True x1 1 w1 of
           (r2, x2, w2) \<Rightarrow>
             (r1, x_program x1, r2, x_program x2, inUse (heap w2 0), inUse (heap w2 1))))
     = (Inr (), None, Inr Undefined, None, True, True)
   \<and> (case ShaderProgramExecutor_new False 0 0 (Some 0) twoProgramWorld of
      (r1, x1, w1) \<Rightarrow>
        (case setProgram False x1 1 w1 of
           (r2, x2, w2) \<Rightarrow>
             (r1, x_program x1, r2, x_program x2, inUse (heap w2 0), inUse (heap w2 1))))
     = (Inr (), None, Inr Undefined, None, True, True)"
  by (simp add: executor_defs program_defs gl_defs example_defs)

text \<open>
  Claim C5, on the code. In the same store an executor is constructed with the first
  program and then disposed. The activation returned false, so the executor holds no program
  and \<open>dispose\<close> changes nothing: the program is still in use and still the device's active
  program; the one \<open>useProgram\<close> call ever issued is the activation.
\<close>

theorem dispose_leaves_program_active:
  "(case ShaderProgramExecutor_new True 0 0 (Some 0) twoProgramWorld of
      (r1, x1, w1) \<Rightarrow>
        (case executor_dispose True x1 w1 of
           (r2, x2, w2) \<Rightarrow>
             (r1, r2, x_program x2, inUse (heap w2 0), currentProgram (device w2),
              filter is_useProgram (calls (device w2)))))
     = (Inr (), Inr (), None, True, Some 1, [UseProgram (Some 1)])
   \<and> (case ShaderProgramExecutor_new False 0 0 (Some 0) twoProgramWorld of
      (r1, x1, w1) \<Rightarrow>
        (case executor_dispose False x1 w1 of
           (r2, x2, w2) \<Rightarrow>
             (r1, r2, x_program x2, inUse (heap w2 0), currentProgram (device w2),
              filter is_useProgram (calls (device w2)))))
     = (Inr (), Inr (), None, True, Some 1, [UseProgram (Some 1)])"
  by (simp add: executor_defs program_defs gl_defs example_defs)

end
